theory Spec2Isabelle
  imports Main "HOL-Library.Sublist"
begin

section \<open>JavaScript values the server works on\<close>

text \<open>
  Strings and buffers are byte lists. A header or query lookup that yields
  \<^verbatim>\<open>undefined\<close> is \<open>None\<close>.
\<close>

type_synonym bytes = string

text \<open>\<^verbatim>\<open>x || d\<close> on a possibly undefined string: the empty string is falsy too.\<close>

fun or_default :: "string option \<Rightarrow> string \<Rightarrow> string" where
  "or_default None d = d"
| "or_default (Some v) d = (if v = [] then d else v)"

fun truthy :: "string option \<Rightarrow> bool" where
  "truthy None = False"
| "truthy (Some v) = (v \<noteq> [])"

text \<open>\<^verbatim>\<open>s.includes(t)\<close>: \<open>t\<close> occurs in \<open>s\<close> as a contiguous run.\<close>

fun str_includes :: "string \<Rightarrow> string \<Rightarrow> bool" where
  "str_includes [] t = (t = [])"
| "str_includes (c # cs) t = (prefix t (c # cs) \<or> str_includes cs t)"

text \<open>\<^verbatim>\<open>parts.join(sep)\<close>.\<close>

fun join :: "string \<Rightarrow> string list \<Rightarrow> string" where
  "join sep [] = []"
| "join sep [x] = x"
| "join sep (x # y # ys) = x @ sep @ join sep (y # ys)"

text \<open>
  A value of \<^verbatim>\<open>req.query\<close>: the query parser yields strings, arrays (a repeated
  key) and nested objects. \<open>js_string\<close> is the coercion \<^verbatim>\<open>String(v)\<close> that
  \<^verbatim>\<open>URLSearchParams.append\<close> and \<^verbatim>\<open>new URL\<close> apply to their argument.
\<close>

datatype qvalue = QStr string | QArr "qvalue list" | QObj "(string \<times> qvalue) list"

fun js_string :: "qvalue \<Rightarrow> string" where
  "js_string (QStr s) = s"
| "js_string (QArr vs) = join '','' (map js_string vs)"
| "js_string (QObj kvs) = ''[object Object]''"

text \<open>\<^verbatim>\<open>!v\<close> for a query value: only \<^verbatim>\<open>undefined\<close> and the empty string are falsy.\<close>

fun falsy :: "qvalue option \<Rightarrow> bool" where
  "falsy None = True"
| "falsy (Some (QStr s)) = (s = [])"
| "falsy (Some v) = False"

section \<open>URLs and the validator\<close>

text \<open>
  The fields of a parsed \<^verbatim>\<open>URL\<close> object that the server reads. The platform's
  parser \<^verbatim>\<open>new URL(s)\<close> is a parameter of the model: \<open>None\<close> is its
  \<^verbatim>\<open>TypeError\<close>.
\<close>

record url =
  protocol :: string
  hostname :: string
  port :: string
  pathname :: string
  search :: string

type_synonym url_parser = "string \<Rightarrow> url option"

definition isValidUrl :: "url_parser \<Rightarrow> string \<Rightarrow> bool" where
  "isValidUrl parse urlString =
     (case parse urlString of
        None \<Rightarrow> False
      | Some u \<Rightarrow> protocol u \<in> set [''http:'', ''https:'', ''ws:'', ''wss:''])"

datatype http_module = Http | Https

definition getHttpModule :: "string \<Rightarrow> http_module" where
  "getHttpModule p = (if p = ''https:'' then Https else Http)"

text \<open>
  What the parser returns on the strings used as examples below (the platform's
  results on these inputs); every other string is left unparsed.
\<close>

definition sample_parse :: url_parser where
  "sample_parse s =
     (if s = ''https://x.com'' then
        Some \<lparr>protocol = ''https:'', hostname = ''x.com'', port = [], pathname = ''/'', search = []\<rparr>
      else if s = ''ftp://x.com'' then
        Some \<lparr>protocol = ''ftp:'', hostname = ''x.com'', port = [], pathname = ''/'', search = []\<rparr>
      else if s = ''http://example.com/echo'' then
        Some \<lparr>protocol = ''http:'', hostname = ''example.com'', port = [], pathname = ''/echo'', search = []\<rparr>
      else if s = ''http://example.com/api?x=1'' then
        Some \<lparr>protocol = ''http:'', hostname = ''example.com'', port = [], pathname = ''/api'', search = ''?x=1''\<rparr>
      else if s = ''ws://example.com/socket'' then
        Some \<lparr>protocol = ''ws:'', hostname = ''example.com'', port = [], pathname = ''/socket'', search = []\<rparr>
      else None)"

section \<open>The outbound request of the forwarder\<close>

text \<open>
  \<^verbatim>\<open>URLSearchParams.toString()\<close>: the form-urlencoded serialisation. ASCII letters,
  digits and \<^verbatim>\<open>* - . _\<close> stay, a space becomes \<^verbatim>\<open>+\<close>, every other byte becomes
  \<^verbatim>\<open>%XX\<close>.
\<close>

definition hex_digit :: "nat \<Rightarrow> char" where
  "hex_digit n = ''0123456789ABCDEF'' ! (n mod 16)"

definition is_alnum :: "char \<Rightarrow> bool" where
  "is_alnum c =
     (let n = (of_char c :: nat) in
      (48 \<le> n \<and> n \<le> 57) \<or> (65 \<le> n \<and> n \<le> 90) \<or> (97 \<le> n \<and> n \<le> 122))"

definition encode_byte :: "char \<Rightarrow> string" where
  "encode_byte c =
     (if is_alnum c \<or> c \<in> set ''*-._'' then [c]
      else if c = CHR '' '' then ''+''
      else [CHR ''%'', hex_digit ((of_char c :: nat) div 16), hex_digit (of_char c)])"

definition form_encode :: "string \<Rightarrow> string" where
  "form_encode s = concat (map encode_byte s)"

definition usp_toString :: "(string \<times> string) list \<Rightarrow> string" where
  "usp_toString ps = join ''&'' (map (\<lambda>(k, v). form_encode k @ ''='' @ form_encode v) ps)"

text \<open>
  The inbound request. \<open>query\<close> lists the entries of \<^verbatim>\<open>req.query\<close> in the
  order \<^verbatim>\<open>Object.entries\<close> enumerates them; \<open>req_headers\<close> has the lower-cased
  names of \<^verbatim>\<open>req.headers\<close>; \<open>body\<close> is \<^verbatim>\<open>req.body\<close>, \<open>None\<close> when falsy.
\<close>

record 'j request =
  req_method :: string
  query :: "(string \<times> qvalue) list"
  req_headers :: "(string \<times> string) list"
  body :: "'j option"

datatype hvalue = HStr string | HNum nat

record options =
  opt_hostname :: string
  opt_port :: string
  path :: string
  opt_method :: string
  headers :: "(string \<times> hvalue) list"
  rejectUnauthorized :: bool
  timeout :: nat

text \<open>The header literal of \<^verbatim>\<open>proxyRequest\<close>, with its conditional spread.\<close>

definition proxy_headers :: "(string \<times> string) list \<Rightarrow> (string \<times> hvalue) list" where
  "proxy_headers h =
     [(''Content-Type'', HStr (or_default (map_of h ''content-type'') ''application/json'')),
      (''User-Agent'', HStr ''NativeProxy/1.0.0''),
      (''Accept'', HStr (or_default (map_of h ''accept'') ''application/json'')),
      (''Authorization'', HStr (or_default (map_of h ''authorization'') [])),
      (''X-Requested-With'', HStr (or_default (map_of h ''x-requested-with'') []))]
     @ (case map_of h ''x-custom-header'' of
          None \<Rightarrow> []
        | Some v \<Rightarrow> if v = [] then [] else [(''X-Custom-Header'', HStr v)])"

text \<open>The header literal of the download handler.\<close>

definition download_headers :: "(string \<times> string) list \<Rightarrow> (string \<times> hvalue) list" where
  "download_headers h =
     [(''User-Agent'', HStr ''NativeProxy/1.0.0''),
      (''Accept'', HStr ''*/*''),
      (''Authorization'', HStr (or_default (map_of h ''authorization'') [])),
      (''Range'', HStr (or_default (map_of h ''range'') []))]"

definition has_body_method :: "string \<Rightarrow> bool" where
  "has_body_method m = (m \<in> set [''POST'', ''PUT'', ''PATCH''])"

text \<open>
  The query parameters copied from the inbound request: every entry but
  \<^verbatim>\<open>url\<close>, and none at all unless the query has more than one key.
\<close>

definition queryParams :: "(string \<times> qvalue) list \<Rightarrow> (string \<times> string) list" where
  "queryParams q =
     (if length q > 1
      then map (\<lambda>(k, v). (k, js_string v)) (filter (\<lambda>(k, v). k \<noteq> ''url'') q)
      else [])"

definition append_query :: "string \<Rightarrow> (string \<times> string) list \<Rightarrow> string" where
  "append_query p ps =
     (if usp_toString ps \<noteq> []
      then p @ (if CHR ''?'' \<in> set p then ''&'' else ''?'') @ usp_toString ps
      else p)"

definition default_port :: "url \<Rightarrow> string" where
  "default_port u = or_default (Some (port u)) (if protocol u = ''https:'' then ''443'' else ''80'')"

text \<open>
  The options object of \<^verbatim>\<open>proxyRequest\<close> as it stands when the request is
  created; \<open>stringify\<close> is \<^verbatim>\<open>JSON.stringify\<close>.
\<close>

definition proxy_options :: "('j \<Rightarrow> string) \<Rightarrow> url \<Rightarrow> 'j request \<Rightarrow> options" where
  "proxy_options stringify u req =
     \<lparr>opt_hostname = hostname u,
      opt_port = default_port u,
      path = append_query (pathname u @ search u) (queryParams (query req)),
      opt_method = req_method req,
      headers = proxy_headers (req_headers req)
        @ (case body req of
             Some b \<Rightarrow>
               if has_body_method (req_method req)
               then [(''Content-Length'', HNum (length (stringify b)))] else []
           | None \<Rightarrow> []),
      rejectUnauthorized = False,
      timeout = 30000\<rparr>"

definition download_options :: "url \<Rightarrow> 'j request \<Rightarrow> options" where
  "download_options u req =
     \<lparr>opt_hostname = hostname u,
      opt_port = default_port u,
      path = pathname u @ search u,
      opt_method = req_method req,
      headers = download_headers (req_headers req),
      rejectUnauthorized = False,
      timeout = 60000\<rparr>"


section \<open>The response to the caller\<close>

text \<open>
  The \<^verbatim>\<open>res\<close> object. \<^verbatim>\<open>res.json\<close> and \<^verbatim>\<open>res.send\<close> set headers and end the
  response, so they throw once the headers are sent, as \<^verbatim>\<open>res.setHeader\<close> does;
  \<^verbatim>\<open>res.write\<close> sends the head with the first chunk and \<^verbatim>\<open>res.end\<close> sends it
  when it has not gone yet. Sending the head throws when the status code is not
  between 100 and 999. An error object passed to \<^verbatim>\<open>res.json\<close> is kept by its
  \<^verbatim>\<open>error\<close> and \<^verbatim>\<open>message\<close> fields. The header names the handlers set on one
  response are distinct, so \<open>res_headers\<close> lists them in the order they were set;
  the headers the framework adds itself are not listed.

  \<open>revalidates\<close> is what the response knows of the inbound request: whether it
  is a GET or HEAD whose validators (\<^verbatim>\<open>If-None-Match\<close>, \<^verbatim>\<open>If-Modified-Since\<close>)
  match a response with the given headers and body. It is the comparison behind
  \<^verbatim>\<open>req.fresh\<close>, which \<^verbatim>\<open>res.send\<close> consults.
\<close>

datatype js_error =
    ERR_HTTP_HEADERS_SENT
  | ERR_STREAM_WRITE_AFTER_END
  | ERR_HTTP_INVALID_STATUS_CODE
  | WS_INVALID_CLOSE_CODE
  | WS_REASON_TOO_LONG

datatype 'j payload = JsonBody 'j | RawBody bytes | ErrorJson string string

record 'j response =
  statusCode :: nat
  res_headers :: "(string \<times> string) list"
  headersSent :: bool
  payload :: "'j payload option"
  written :: "bytes list"
  ended :: bool
  revalidates :: "(string \<times> string) list \<Rightarrow> 'j payload \<Rightarrow> bool"

text \<open>The response object of a request that carries no validators.\<close>

definition new_response :: "'j response" where
  "new_response =
     \<lparr>statusCode = 200, res_headers = [], headersSent = False, payload = None,
      written = [], ended = False, revalidates = (\<lambda>hs p. False)\<rparr>"

definition valid_status :: "nat \<Rightarrow> bool" where
  "valid_status sc = (100 \<le> sc \<and> sc \<le> 999)"

text \<open>Statuses whose response has no body: writes of a body are ignored.\<close>

definition no_body_status :: "nat \<Rightarrow> bool" where
  "no_body_status sc = (sc = 204 \<or> sc = 304 \<or> (100 \<le> sc \<and> sc \<le> 199))"

text \<open>
  \<^verbatim>\<open>req.fresh\<close>: only a response with a 2xx status or 304 can be fresh, and then
  the validators decide.
\<close>

definition is_fresh :: "'j response \<Rightarrow> 'j payload \<Rightarrow> bool" where
  "is_fresh r p =
     (((200 \<le> statusCode r \<and> statusCode r < 300) \<or> statusCode r = 304)
      \<and> revalidates r (res_headers r) p)"

definition strip_entity_headers :: "(string \<times> string) list \<Rightarrow> (string \<times> string) list" where
  "strip_entity_headers hs =
     filter (\<lambda>(k, v). k \<notin> set [''content-type'', ''content-length'', ''transfer-encoding'']) hs"

definition res_status :: "nat \<Rightarrow> 'j response \<Rightarrow> 'j response" where
  "res_status n r = r\<lparr>statusCode := n\<rparr>"

definition res_setHeader :: "string \<Rightarrow> string \<Rightarrow> 'j response \<Rightarrow> js_error + 'j response" where
  "res_setHeader k v r =
     (if headersSent r then Inl ERR_HTTP_HEADERS_SENT
      else Inr (r\<lparr>res_headers := res_headers r @ [(k, v)]\<rparr>))"

text \<open>
  \<^verbatim>\<open>res.send\<close>, which \<^verbatim>\<open>res.json\<close> ends in: a fresh request turns the status into
  304; a 204 or 304 loses its entity headers and its body, a 205 its body; then the
  head and the body go out. A 1xx head takes no body with it.
\<close>

definition res_emit :: "'j payload \<Rightarrow> 'j response \<Rightarrow> js_error + 'j response" where
  "res_emit p r =
     (if headersSent r then Inl ERR_HTTP_HEADERS_SENT
      else
        (let sc = (if is_fresh r p then 304 else statusCode r) in
         if \<not> valid_status sc then Inl ERR_HTTP_INVALID_STATUS_CODE
         else if sc = 204 \<or> sc = 304 then
           Inr (r\<lparr>statusCode := sc, res_headers := strip_entity_headers (res_headers r),
                  headersSent := True, payload := Some (RawBody []), ended := True\<rparr>)
         else if sc = 205 then
           Inr (r\<lparr>res_headers :=
                    filter (\<lambda>(k, v). k \<notin> set [''content-length'', ''transfer-encoding''])
                      (res_headers r) @ [(''Content-Length'', ''0'')],
                  headersSent := True, payload := Some (RawBody []), ended := True\<rparr>)
         else if sc < 200 then
           Inr (r\<lparr>headersSent := True, payload := Some (RawBody []), ended := True\<rparr>)
         else Inr (r\<lparr>headersSent := True, payload := Some p, ended := True\<rparr>)))"

definition res_json :: "'j \<Rightarrow> 'j response \<Rightarrow> js_error + 'j response" where
  "res_json v = res_emit (JsonBody v)"

definition res_send :: "bytes \<Rightarrow> 'j response \<Rightarrow> js_error + 'j response" where
  "res_send d = res_emit (RawBody d)"

definition res_write :: "bytes \<Rightarrow> 'j response \<Rightarrow> js_error + 'j response" where
  "res_write chunk r =
     (if ended r then Inl ERR_STREAM_WRITE_AFTER_END
      else if \<not> headersSent r \<and> \<not> valid_status (statusCode r)
        then Inl ERR_HTTP_INVALID_STATUS_CODE
      else if no_body_status (statusCode r) then Inr (r\<lparr>headersSent := True\<rparr>)
      else Inr (r\<lparr>headersSent := True, written := written r @ [chunk]\<rparr>))"

definition res_end :: "'j response \<Rightarrow> js_error + 'j response" where
  "res_end r =
     (if \<not> headersSent r \<and> \<not> valid_status (statusCode r)
        then Inl ERR_HTTP_INVALID_STATUS_CODE
      else Inr (r\<lparr>headersSent := True, ended := True\<rparr>))"

fun set_headers :: "(string \<times> string) list \<Rightarrow> 'j response \<Rightarrow> js_error + 'j response" where
  "set_headers [] r = Inr r"
| "set_headers ((k, v) # kvs) r =
     (case res_setHeader k v r of Inl e \<Rightarrow> Inl e | Inr r' \<Rightarrow> set_headers kvs r')"

text \<open>
  \<^verbatim>\<open>headersToCopy.forEach\<close>: the upstream headers of the listed names that are
  present and not empty, in the order of the list.
\<close>

definition copy_headers :: "string list \<Rightarrow> (string \<times> string) list \<Rightarrow> (string \<times> string) list" where
  "copy_headers names hs =
     List.map_filter
       (\<lambda>n. case map_of hs n of None \<Rightarrow> None | Some v \<Rightarrow> if v = [] then None else Some (n, v))
       names"

definition proxy_headersToCopy :: "string list" where
  "proxy_headersToCopy =
     [''content-type'', ''content-length'', ''cache-control'', ''etag'', ''last-modified'']"

definition download_headersToCopy :: "string list" where
  "download_headersToCopy =
     [''content-type'', ''content-length'', ''content-disposition'', ''accept-ranges'',
      ''etag'', ''last-modified'', ''cache-control'']"

definition cors_headers :: "string \<Rightarrow> (string \<times> string) list" where
  "cors_headers allowed =
     [(''Access-Control-Allow-Origin'', ''*''),
      (''Access-Control-Allow-Methods'', ''GET, POST, PUT, DELETE, PATCH, OPTIONS''),
      (''Access-Control-Allow-Headers'', allowed)]"

section \<open>The forwarder\<close>

text \<open>
  The synchronous part of \<^verbatim>\<open>proxyRequest\<close>: validation, the options, the creation
  of the outbound request. \<open>request_throws\<close> says whether creating or writing the
  outbound request throws, which the \<^verbatim>\<open>catch\<close> answers with 500. The result is
  the response object and, when the request went out, its options.
\<close>

definition setup_error :: "string \<Rightarrow> 'j response \<Rightarrow> js_error + 'j response" where
  "setup_error msg r = res_emit (ErrorJson ''Internal Server Error'' msg) (res_status 500 r)"

definition bad_request :: "string \<Rightarrow> 'j response \<Rightarrow> js_error + 'j response" where
  "bad_request msg r = res_emit (ErrorJson ''Bad Request'' msg) (res_status 400 r)"

definition proxyRequest ::
  "url_parser \<Rightarrow> ('j \<Rightarrow> string) \<Rightarrow> (options \<Rightarrow> bool) \<Rightarrow> 'j request \<Rightarrow> 'j response
     \<Rightarrow> js_error + ('j response \<times> options option)" where
  "proxyRequest parse stringify request_throws req res =
     (let targetUrl = map_of (query req) ''url'' in
      case (if falsy targetUrl then None else targetUrl) of
        None \<Rightarrow> map_sum id (\<lambda>r. (r, None)) (bad_request ''URL parameter is required'' res)
      | Some t \<Rightarrow>
          if \<not> isValidUrl parse (js_string t)
          then map_sum id (\<lambda>r. (r, None)) (bad_request ''Invalid URL format'' res)
          else
            (case parse (js_string t) of
               None \<Rightarrow>
                 map_sum id (\<lambda>r. (r, None)) (setup_error ''Failed to setup proxy request'' res)
             | Some parsedUrl \<Rightarrow>
                 (let opts = proxy_options stringify parsedUrl req in
                  if request_throws opts
                  then map_sum id (\<lambda>r. (r, None))
                         (setup_error ''Failed to setup proxy request'' res)
                  else Inr (res, Some opts))))"

text \<open>
  The events of the outbound request and of its response, and the state its
  handlers share: the response to the caller, whether \<^verbatim>\<open>proxyReq.destroy()\<close> was
  called, the upstream headers and the buffer \<^verbatim>\<open>responseData\<close>.
\<close>

datatype event =
    Response nat "(string \<times> string) list"
  | Data bytes
  | End
  | ResError
  | ReqError string
  | Timeout

record 'j forward =
  fwd_res :: "'j response"
  fwd_destroyed :: bool
  proxyRes_headers :: "(string \<times> string) list"
  responseData :: bytes

definition fwd_init :: "'j response \<Rightarrow> 'j forward" where
  "fwd_init r = \<lparr>fwd_res = r, fwd_destroyed = False, proxyRes_headers = [], responseData = []\<rparr>"

definition with_res :: "'j forward \<Rightarrow> js_error + 'j response \<Rightarrow> js_error + 'j forward" where
  "with_res st x = map_sum id (\<lambda>r. st\<lparr>fwd_res := r\<rparr>) x"

definition fwd_on_response :: "nat \<Rightarrow> (string \<times> string) list \<Rightarrow> 'j forward \<Rightarrow> js_error + 'j forward" where
  "fwd_on_response sc hs st =
     with_res (st\<lparr>proxyRes_headers := hs, responseData := []\<rparr>)
       (set_headers
          (copy_headers proxy_headersToCopy hs
             @ cors_headers ''Content-Type, Authorization, X-Requested-With, X-Custom-Header'')
          (res_status sc (fwd_res st)))"

definition fwd_on_data :: "bytes \<Rightarrow> 'j forward \<Rightarrow> 'j forward" where
  "fwd_on_data chunk st = st\<lparr>responseData := responseData st @ chunk\<rparr>"

text \<open>
  The \<^verbatim>\<open>end\<close> handler; \<open>decode\<close> is \<^verbatim>\<open>JSON.parse\<close> of the buffer's text, \<open>None\<close>
  when it throws. A throw of \<^verbatim>\<open>res.json\<close> lands in the same \<^verbatim>\<open>catch\<close>.
\<close>

definition fwd_on_end :: "(bytes \<Rightarrow> 'j option) \<Rightarrow> 'j forward \<Rightarrow> js_error + 'j forward" where
  "fwd_on_end decode st =
     (let contentType = or_default (map_of (proxyRes_headers st) ''content-type'') [] in
      with_res st
        (if str_includes contentType ''application/json'' then
           (case decode (responseData st) of
              Some jsonData \<Rightarrow>
                (case res_json jsonData (fwd_res st) of
                   Inr r \<Rightarrow> Inr r
                 | Inl e \<Rightarrow> res_send (responseData st) (fwd_res st))
            | None \<Rightarrow> res_send (responseData st) (fwd_res st))
         else res_send (responseData st) (fwd_res st)))"

definition fwd_on_error :: "string \<Rightarrow> 'j forward \<Rightarrow> js_error + 'j forward" where
  "fwd_on_error code st =
     with_res st
       (if code = ''ENOTFOUND'' \<or> code = ''ECONNREFUSED'' then
          res_emit (ErrorJson ''Bad Gateway'' ''Cannot connect to target server'')
            (res_status 502 (fwd_res st))
        else if code = ''ETIMEDOUT'' then
          res_emit (ErrorJson ''Gateway Timeout'' ''Request to target server timed out'')
            (res_status 504 (fwd_res st))
        else
          res_emit (ErrorJson ''Internal Server Error'' ''Failed to proxy request'')
            (res_status 500 (fwd_res st)))"

definition fwd_on_timeout :: "'j forward \<Rightarrow> js_error + 'j forward" where
  "fwd_on_timeout st =
     (let st' = st\<lparr>fwd_destroyed := True\<rparr> in
      if \<not> headersSent (fwd_res st') then
        with_res st'
          (res_emit (ErrorJson ''Gateway Timeout'' ''Request to target server timed out'')
             (res_status 504 (fwd_res st')))
      else Inr st')"

text \<open>
  One event of the forwarder. No listener is registered for an error of the
  upstream response, so that event runs no code.
\<close>

fun fwd_step :: "(bytes \<Rightarrow> 'j option) \<Rightarrow> event \<Rightarrow> 'j forward \<Rightarrow> js_error + 'j forward" where
  "fwd_step decode (Response sc hs) st = fwd_on_response sc hs st"
| "fwd_step decode (Data chunk) st = Inr (fwd_on_data chunk st)"
| "fwd_step decode End st = fwd_on_end decode st"
| "fwd_step decode ResError st = Inr st"
| "fwd_step decode (ReqError code) st = fwd_on_error code st"
| "fwd_step decode Timeout st = fwd_on_timeout st"

text \<open>A run of events; an exception that escapes a handler ends it.\<close>

fun fwd_run :: "(bytes \<Rightarrow> 'j option) \<Rightarrow> event list \<Rightarrow> 'j forward \<Rightarrow> js_error + 'j forward" where
  "fwd_run decode [] st = Inr st"
| "fwd_run decode (e # es) st =
     (case fwd_step decode e st of Inl err \<Rightarrow> Inl err | Inr st' \<Rightarrow> fwd_run decode es st')"

section \<open>The streaming downloader\<close>

text \<open>
  The state of a download: the response to the caller, whether the outbound
  request was destroyed, and the counter \<^verbatim>\<open>downloadedBytes\<close>. No body byte is
  kept.
\<close>

record 'j download =
  dl_res :: "'j response"
  dl_destroyed :: bool
  downloadedBytes :: nat

definition dl_init :: "'j response \<Rightarrow> 'j download" where
  "dl_init r = \<lparr>dl_res = r, dl_destroyed = False, downloadedBytes = 0\<rparr>"

definition with_dl_res :: "'j download \<Rightarrow> js_error + 'j response \<Rightarrow> js_error + 'j download" where
  "with_dl_res st x = map_sum id (\<lambda>r. st\<lparr>dl_res := r\<rparr>) x"

definition download ::
  "url_parser \<Rightarrow> (options \<Rightarrow> bool) \<Rightarrow> 'j request \<Rightarrow> 'j response
     \<Rightarrow> js_error + ('j response \<times> options option)" where
  "download parse request_throws req res =
     (let targetUrl = map_of (query req) ''url'' in
      case (if falsy targetUrl then None else targetUrl) of
        None \<Rightarrow> map_sum id (\<lambda>r. (r, None)) (bad_request ''URL parameter is required'' res)
      | Some t \<Rightarrow>
          if \<not> isValidUrl parse (js_string t)
          then map_sum id (\<lambda>r. (r, None)) (bad_request ''Invalid URL format'' res)
          else
            (case parse (js_string t) of
               None \<Rightarrow>
                 map_sum id (\<lambda>r. (r, None)) (setup_error ''Failed to setup download request'' res)
             | Some parsedUrl \<Rightarrow>
                 (let opts = download_options parsedUrl req in
                  if request_throws opts
                  then map_sum id (\<lambda>r. (r, None))
                         (setup_error ''Failed to setup download request'' res)
                  else Inr (res, Some opts))))"

definition dl_on_response :: "nat \<Rightarrow> (string \<times> string) list \<Rightarrow> 'j download \<Rightarrow> js_error + 'j download" where
  "dl_on_response sc hs st =
     with_dl_res (st\<lparr>downloadedBytes := 0\<rparr>)
       (set_headers
          (copy_headers download_headersToCopy hs
             @ cors_headers
                 ''Content-Type, Authorization, X-Requested-With, X-Custom-Header, Range'')
          (res_status sc (dl_res st)))"

definition dl_on_data :: "bytes \<Rightarrow> 'j download \<Rightarrow> js_error + 'j download" where
  "dl_on_data chunk st =
     with_dl_res (st\<lparr>downloadedBytes := downloadedBytes st + length chunk\<rparr>)
       (res_write chunk (dl_res st))"

definition dl_on_end :: "'j download \<Rightarrow> js_error + 'j download" where
  "dl_on_end st = with_dl_res st (res_end (dl_res st))"

definition dl_on_res_error :: "'j download \<Rightarrow> js_error + 'j download" where
  "dl_on_res_error st =
     (if \<not> headersSent (dl_res st) then
        with_dl_res st
          (res_emit (ErrorJson ''Download Error'' ''Failed to stream file from target server'')
             (res_status 500 (dl_res st)))
      else Inr st)"

definition dl_on_error :: "string \<Rightarrow> 'j download \<Rightarrow> js_error + 'j download" where
  "dl_on_error code st =
     with_dl_res st
       (if code = ''ENOTFOUND'' \<or> code = ''ECONNREFUSED'' then
          res_emit (ErrorJson ''Bad Gateway'' ''Cannot connect to target server'')
            (res_status 502 (dl_res st))
        else if code = ''ETIMEDOUT'' then
          res_emit (ErrorJson ''Gateway Timeout'' ''Download request timed out'')
            (res_status 504 (dl_res st))
        else
          res_emit (ErrorJson ''Internal Server Error'' ''Failed to setup download request'')
            (res_status 500 (dl_res st)))"

definition dl_on_timeout :: "'j download \<Rightarrow> js_error + 'j download" where
  "dl_on_timeout st =
     (let st' = st\<lparr>dl_destroyed := True\<rparr> in
      if \<not> headersSent (dl_res st') then
        with_dl_res st'
          (res_emit (ErrorJson ''Gateway Timeout'' ''Download request timed out'')
             (res_status 504 (dl_res st')))
      else Inr st')"

fun dl_step :: "event \<Rightarrow> 'j download \<Rightarrow> js_error + 'j download" where
  "dl_step (Response sc hs) st = dl_on_response sc hs st"
| "dl_step (Data chunk) st = dl_on_data chunk st"
| "dl_step End st = dl_on_end st"
| "dl_step ResError st = dl_on_res_error st"
| "dl_step (ReqError code) st = dl_on_error code st"
| "dl_step Timeout st = dl_on_timeout st"

fun dl_run :: "event list \<Rightarrow> 'j download \<Rightarrow> js_error + 'j download" where
  "dl_run [] st = Inr st"
| "dl_run (e # es) st =
     (case dl_step e st of Inl err \<Rightarrow> Inl err | Inr st' \<Rightarrow> dl_run es st')"

section \<open>The WebSocket routes\<close>

text \<open>
  \<^verbatim>\<open>GET /ws-proxy\<close>: validation and a page of instructions; the route opens no
  connection. \<open>starts_ws\<close> is the test \<^verbatim>\<open>/^wss?:\/\//\<close>. A target that is not a
  string cannot be matched: the call of \<^verbatim>\<open>match\<close> throws and the global error handler
  answers 500.
\<close>

definition starts_ws :: "string \<Rightarrow> bool" where
  "starts_ws s = (prefix ''ws://'' s \<or> prefix ''wss://'' s)"

datatype ws_page = Instructions string | Rejected nat string

definition ws_proxy_get :: "url_parser \<Rightarrow> (string \<times> qvalue) list \<Rightarrow> ws_page" where
  "ws_proxy_get parse q =
     (let targetUrl = map_of q ''url'' in
      case (if falsy targetUrl then None else targetUrl) of
        None \<Rightarrow> Rejected 400 ''WebSocket URL parameter is required''
      | Some t \<Rightarrow>
          if \<not> isValidUrl parse (js_string t) then Rejected 400 ''Invalid WebSocket URL format''
          else
            (case t of
               QStr s \<Rightarrow>
                 if \<not> starts_ws s then Rejected 400 ''Invalid WebSocket URL format''
                 else Instructions s
             | _ \<Rightarrow> Rejected 500 ''An unexpected error occurred''))"

text \<open>
  The \<^verbatim>\<open>upgrade\<close> handler up to the creation of the outbound socket. The
  constructor of the WebSocket client is a parameter: \<open>ctor_throws\<close> says on which
  addresses it throws. \<open>Connecting t\<close> is an outbound client created for \<open>t\<close>;
  \<open>Refused line\<close> is the status line written to the raw socket before it is
  destroyed.
\<close>

datatype upgrade_result = Connecting string | Refused string

definition upgrade :: "(string \<Rightarrow> bool) \<Rightarrow> string option \<Rightarrow> upgrade_result" where
  "upgrade ctor_throws targetUrl =
     (case (if truthy targetUrl then targetUrl else None) of
        None \<Rightarrow> Refused ''HTTP/1.1 400 Bad Request''
      | Some t \<Rightarrow>
          if ctor_throws t then Refused ''HTTP/1.1 500 Internal Server Error''
          else Connecting t)"

text \<open>
  An open relay session. Of each WebSocket the model keeps the messages sent on
  it and the calls of \<^verbatim>\<open>close\<close> made on it, with their optional code and reason;
  of the raw inbound socket, what was written to it and whether it was destroyed.
  A message event says whether the forwarding \<^verbatim>\<open>send\<close> throws. A call of
  \<^verbatim>\<open>close\<close> with a code throws when the code is not one that may be sent, or the
  reason is longer than 123 bytes; the exception leaves the handler.
\<close>

record websocket =
  sent :: "bytes list"
  close_calls :: "(nat option \<times> string option) list"

record relay =
  ws :: websocket
  targetWs :: websocket
  socket_written :: "string list"
  socket_destroyed :: bool

datatype relay_event =
    ClientMessage bytes bool
  | TargetMessage bytes bool
  | ClientClose nat string
  | TargetClose nat string
  | ClientError
  | TargetError

definition ws_send :: "bytes \<Rightarrow> websocket \<Rightarrow> websocket" where
  "ws_send m w = w\<lparr>sent := sent w @ [m]\<rparr>"

definition ws_close :: "nat option \<Rightarrow> string option \<Rightarrow> websocket \<Rightarrow> websocket" where
  "ws_close code reason w = w\<lparr>close_calls := close_calls w @ [(code, reason)]\<rparr>"

definition isValidStatusCode :: "nat \<Rightarrow> bool" where
  "isValidStatusCode code =
     ((1000 \<le> code \<and> code \<le> 1014 \<and> code \<noteq> 1004 \<and> code \<noteq> 1005 \<and> code \<noteq> 1006)
      \<or> (3000 \<le> code \<and> code \<le> 4999))"

definition ws_close_with :: "nat \<Rightarrow> string \<Rightarrow> websocket \<Rightarrow> js_error + websocket" where
  "ws_close_with code reason w =
     (if \<not> isValidStatusCode code then Inl WS_INVALID_CLOSE_CODE
      else if length reason > 123 then Inl WS_REASON_TOO_LONG
      else Inr (ws_close (Some code) (Some reason) w))"

text \<open>
  The session as the \<^verbatim>\<open>handleUpgrade\<close> callback leaves it: the ready message sent
  to the client (\<open>ready\<close> is its text).
\<close>

definition relay_open :: "bytes \<Rightarrow> relay" where
  "relay_open ready =
     \<lparr>ws = \<lparr>sent = [ready], close_calls = []\<rparr>,
      targetWs = \<lparr>sent = [], close_calls = []\<rparr>,
      socket_written = [], socket_destroyed = False\<rparr>"

text \<open>
  The handlers of an open session. An error of the target runs two listeners, in
  the order of their registration: the one set before the session opened, which
  writes a 502 line to the raw socket and destroys it, and the session's own.
\<close>

fun relay_step :: "relay_event \<Rightarrow> relay \<Rightarrow> js_error + relay" where
  "relay_step (ClientMessage m throws) st =
     (if throws
      then map_sum id (\<lambda>w. st\<lparr>ws := w\<rparr>) (ws_close_with 1011 ''Proxy error'' (ws st))
      else Inr (st\<lparr>targetWs := ws_send m (targetWs st)\<rparr>))"
| "relay_step (TargetMessage m throws) st =
     (if throws then Inr (st\<lparr>targetWs := ws_close None None (targetWs st)\<rparr>)
      else Inr (st\<lparr>ws := ws_send m (ws st)\<rparr>))"
| "relay_step (ClientClose code reason) st =
     Inr (st\<lparr>targetWs := ws_close None None (targetWs st)\<rparr>)"
| "relay_step (TargetClose code reason) st =
     map_sum id (\<lambda>w. st\<lparr>ws := w\<rparr>) (ws_close_with code reason (ws st))"
| "relay_step ClientError st =
     Inr (st\<lparr>targetWs := ws_close None None (targetWs st)\<rparr>)"
| "relay_step TargetError st =
     map_sum id (\<lambda>w. st\<lparr>socket_written := socket_written st @ [''HTTP/1.1 502 Bad Gateway''],
                        socket_destroyed := True, ws := w\<rparr>)
       (ws_close_with 1011 ''Target WebSocket error'' (ws st))"

text \<open>A small JSON codec for the examples: two values and their texts.\<close>

datatype sample_json = JEmptyObject | JTrue

fun sample_stringify :: "sample_json \<Rightarrow> string" where
  "sample_stringify JEmptyObject = ''{}''"
| "sample_stringify JTrue = ''true''"

definition sample_decode :: "bytes \<Rightarrow> sample_json option" where
  "sample_decode s =
     (if s = ''{}'' then Some JEmptyObject else if s = ''true'' then Some JTrue else None)"


section \<open>The validator\<close>

text \<open>
  C2. For every string, the validator answers true exactly when the string parses
  as a URL whose scheme is http, https, ws or wss. A parse error (the parser's
  exception, \<open>None\<close> here) and a scheme outside the four give false; the
  validator is a total boolean function, so no exception leaves it.
\<close>

theorem isValidUrl_iff:
  "isValidUrl parse s =
     (\<exists>u. parse s = Some u \<and> protocol u \<in> {''http:'', ''https:'', ''ws:'', ''wss:''})"
  by (auto simp: isValidUrl_def split: option.splits)

theorem isValidUrl_iff_witness:
  "isValidUrl sample_parse ''https://x.com'' \<and> \<not> isValidUrl sample_parse ''ftp://x.com''
   \<and> \<not> isValidUrl sample_parse ''not a url''"
  using isValidUrl_iff [of sample_parse "''https://x.com''"]
    isValidUrl_iff [of sample_parse "''ftp://x.com''"]
    isValidUrl_iff [of sample_parse "''not a url''"]
  by (simp add: sample_parse_def)

section \<open>Query parameters of a forwarded request\<close>

lemma join_Cons_nonempty: "x \<noteq> [] \<Longrightarrow> join sep (x # xs) \<noteq> []"
  by (cases xs) auto

lemma usp_toString_empty: "(usp_toString ps = []) = (ps = [])"
proof (cases ps)
  case Nil
  then show ?thesis by (simp add: usp_toString_def)
next
  case (Cons p ps')
  obtain k v where p: "p = (k, v)" by (cases p)
  have "form_encode k @ ''='' @ form_encode v \<noteq> []" by simp
  then show ?thesis
    using Cons p by (simp add: usp_toString_def join_Cons_nonempty del: join.simps)
qed

lemma queryParams_all:
  assumes "''url'' \<in> fst ` set q"
  shows "queryParams q = map (\<lambda>(k, v). (k, js_string v)) (filter (\<lambda>(k, v). k \<noteq> ''url'') q)"
proof (cases "length q > 1")
  case True
  then show ?thesis by (simp add: queryParams_def)
next
  case False
  then obtain p where q: "q = [p]"
    using assms by (cases q) auto
  with assms have "fst p = ''url''" by simp
  then show ?thesis using q by (cases p) (simp add: queryParams_def)
qed

lemma key_once:
  "distinct (map fst q) \<Longrightarrow> k \<in> fst ` set q \<Longrightarrow> length (filter (\<lambda>p. fst p = k) q) = 1"
proof (induction q)
  case Nil
  then show ?case by simp
next
  case (Cons a q)
  show ?case
  proof (cases "fst a = k")
    case True
    from Cons.prems have "fst a \<notin> fst ` set q" by simp
    then have "\<And>p. p \<in> set q \<Longrightarrow> fst p \<noteq> fst a"
      by (metis image_eqI)
    with True have "filter (\<lambda>p. fst p = k) q = []"
      by (simp add: filter_empty_conv)
    with True show ?thesis by simp
  next
    case False
    with Cons show ?thesis by auto
  qed
qed

lemma filter_key_params:
  "k \<noteq> u \<Longrightarrow>
   length (filter (\<lambda>p. fst p = k) (map (\<lambda>(k, v). (k, f v)) (filter (\<lambda>(k, v). k \<noteq> u) q)))
     = length (filter (\<lambda>p. fst p = k) q)"
  by (induction q) auto

lemma emit_not_started:
  "map_sum id (\<lambda>r. (r, None)) x \<noteq> Inr (r', Some opts)"
  by (cases x) auto

lemma proxyRequest_started:
  assumes "proxyRequest parse stringify request_throws req res = Inr (r, Some opts)"
  shows "\<exists>t u. map_of (query req) ''url'' = Some t \<and> isValidUrl parse (js_string t)
           \<and> parse (js_string t) = Some u \<and> \<not> request_throws (proxy_options stringify u req)
           \<and> opts = proxy_options stringify u req \<and> r = res"
  using assms
  by (auto simp: proxyRequest_def Let_def emit_not_started split: if_splits option.splits)

text \<open>
  What \<^verbatim>\<open>proxyRequest\<close> appends to the path of a request it sends out: one
  parameter for every entry of the parsed query object except \<^verbatim>\<open>url\<close>, in order,
  its value coerced to a string, after \<^verbatim>\<open>&\<close> when the derived path contains a
  \<^verbatim>\<open>?\<close> and after \<^verbatim>\<open>?\<close> otherwise.
\<close>

lemma appended_query_entries:
  assumes "proxyRequest parse stringify request_throws req res = Inr (r, Some opts)"
  shows "\<exists>t u. map_of (query req) ''url'' = Some t \<and> parse (js_string t) = Some u \<and>
     (let base = pathname u @ search u;
          ps = map (\<lambda>(k, v). (k, js_string v)) (filter (\<lambda>(k, v). k \<noteq> ''url'') (query req))
      in path opts =
           (if ps = [] then base
            else base @ (if CHR ''?'' \<in> set base then ''&'' else ''?'')
                   @ join ''&'' (map (\<lambda>(k, v). form_encode k @ ''='' @ form_encode v) ps))
         \<and> (\<forall>k. distinct (map fst (query req)) \<and> k \<in> fst ` set (query req) \<and> k \<noteq> ''url''
                \<longrightarrow> length (filter (\<lambda>p. fst p = k) ps) = 1))"
proof -
  from proxyRequest_started [OF assms] obtain t u where
    t: "map_of (query req) ''url'' = Some t" and u: "parse (js_string t) = Some u"
    and opts: "opts = proxy_options stringify u req" by blast
  let ?ps = "map (\<lambda>(k, v). (k, js_string v)) (filter (\<lambda>(k, v). k \<noteq> ''url'') (query req))"
  from t have "''url'' \<in> fst ` set (query req)"
    by (metis domI dom_map_of_conv_image_fst)
  then have qp: "queryParams (query req) = ?ps" by (rule queryParams_all)
  have p: "path opts =
      (if ?ps = [] then pathname u @ search u
       else (pathname u @ search u) @ (if CHR ''?'' \<in> set (pathname u @ search u) then ''&'' else ''?'')
              @ join ''&'' (map (\<lambda>(k, v). form_encode k @ ''='' @ form_encode v) ?ps))"
    unfolding opts proxy_options_def append_query_def qp usp_toString_empty
    by (simp add: usp_toString_def)
  have once: "length (filter (\<lambda>p. fst p = k) ?ps) = 1"
    if d: "distinct (map fst (query req))" and k: "k \<in> fst ` set (query req)" and n: "k \<noteq> ''url''" for k
  proof -
    have "length (filter (\<lambda>p. fst p = k) ?ps) = length (filter (\<lambda>p. fst p = k) (query req))"
      using n by (rule filter_key_params)
    then show ?thesis using key_once [OF d k] by simp
  qed
  show ?thesis
    using t u p once by (auto simp: Let_def)
qed

text \<open>
  C7. A caller who repeats a key, \<^verbatim>\<open>?url=...&t=1&t=2\<close>, supplies two parameters;
  the parsed query holds them as one entry with an array, and the outbound path
  carries the single parameter \<^verbatim>\<open>t=1%2C2\<close>, the same path as for the one
  parameter \<^verbatim>\<open>t=1,2\<close>. A nested key, \<^verbatim>\<open>?url=...&f[a]=1\<close>, goes out as
  \<^verbatim>\<open>f=%5Bobject+Object%5D\<close>. Neither caller's parameters reach the upstream.
\<close>

theorem repeated_parameter_collapsed:
  "map_sum id (\<lambda>(r, opts). map_option path opts)
     (proxyRequest sample_parse sample_stringify (\<lambda>opts. False)
        \<lparr>req_method = ''GET'',
         query = [(''url'', QStr ''http://example.com/echo''), (''t'', QArr [QStr ''1'', QStr ''2''])],
         req_headers = [], body = None\<rparr> new_response)
     = Inr (Some ''/echo?t=1%2C2'')
   \<and> map_sum id (\<lambda>(r, opts). map_option path opts)
     (proxyRequest sample_parse sample_stringify (\<lambda>opts. False)
        \<lparr>req_method = ''GET'',
         query = [(''url'', QStr ''http://example.com/echo''), (''t'', QStr ''1,2'')],
         req_headers = [], body = None\<rparr> new_response)
     = Inr (Some ''/echo?t=1%2C2'')
   \<and> map_sum id (\<lambda>(r, opts). map_option path opts)
     (proxyRequest sample_parse sample_stringify (\<lambda>opts. False)
        \<lparr>req_method = ''GET'',
         query = [(''url'', QStr ''http://example.com/echo''), (''f'', QObj [(''a'', QStr ''1'')])],
         req_headers = [], body = None\<rparr> new_response)
     = Inr (Some ''/echo?f=%5Bobject+Object%5D'')"
  by (simp add: proxyRequest_def sample_parse_def isValidUrl_def proxy_options_def
      default_port_def append_query_def queryParams_def usp_toString_def form_encode_def
      encode_byte_def is_alnum_def hex_digit_def proxy_headers_def Let_def)

section \<open>The forwarder's response\<close>

lemma set_headers_ok:
  "\<not> headersSent r \<Longrightarrow> set_headers kvs r = Inr (r\<lparr>res_headers := res_headers r @ kvs\<rparr>)"
  by (induction kvs arbitrary: r) (auto simp: res_setHeader_def)










section \<open>Failures of the outbound request\<close>


lemma emit_sent: "headersSent r \<Longrightarrow> res_emit p (res_status n r) = Inl ERR_HTTP_HEADERS_SENT"
  by (simp add: res_emit_def res_status_def)

lemma fwd_on_error_sent:
  "headersSent (fwd_res st) \<Longrightarrow> fwd_on_error code st = Inl ERR_HTTP_HEADERS_SENT"
  by (simp add: fwd_on_error_def with_res_def emit_sent)

lemma fwd_on_timeout_sent:
  "headersSent (fwd_res st) \<Longrightarrow> fwd_on_timeout st = Inr (st\<lparr>fwd_destroyed := True\<rparr>)"
  by (simp add: fwd_on_timeout_def Let_def)



text \<open>
  C5. A run in which the timeout fires first: the 504 goes out and the request is
  destroyed. The error event that follows the destruction is not ignored: its
  handler has no test of \<^verbatim>\<open>headersSent\<close> and emits again, which throws. A second
  timeout, whose handler has the test, changes nothing.
\<close>

theorem late_error_not_ignored:
  "fwd_run sample_decode [Timeout] (fwd_init new_response) =
     Inr \<lparr>fwd_res = \<lparr>statusCode = 504, res_headers = [], headersSent = True,
             payload = Some (ErrorJson ''Gateway Timeout'' ''Request to target server timed out''),
             written = [], ended = True, revalidates = (\<lambda>hs p. False)\<rparr>,
          fwd_destroyed = True, proxyRes_headers = [], responseData = []\<rparr>
   \<and> fwd_run sample_decode [Timeout, ReqError ''ECONNRESET''] (fwd_init new_response)
       = Inl ERR_HTTP_HEADERS_SENT
   \<and> fwd_run sample_decode [Timeout, Timeout] (fwd_init new_response)
       = fwd_run sample_decode [Timeout] (fwd_init new_response)"
  by (simp add: fwd_init_def new_response_def fwd_on_timeout_def fwd_on_error_def Let_def
      with_res_def res_emit_def res_status_def is_fresh_def valid_status_def)

section \<open>The streaming downloader's response\<close>

lemma map_of_copy_headers:
  "map_of (copy_headers names hs) n =
     (if n \<in> set names
      then (case map_of hs n of None \<Rightarrow> None | Some v \<Rightarrow> if v = [] then None else Some v)
      else None)"
  by (induction names) (auto simp: copy_headers_def List.map_filter_simps split: option.splits)

lemma dl_response_fresh:
  "dl_on_response sc hs (dl_init (new_response\<lparr>revalidates := c\<rparr>)) =
     Inr \<lparr>dl_res = \<lparr>statusCode = sc,
              res_headers = copy_headers download_headersToCopy hs
                @ cors_headers
                    ''Content-Type, Authorization, X-Requested-With, X-Custom-Header, Range'',
              headersSent = False, payload = None, written = [], ended = False,
              revalidates = c\<rparr>,
          dl_destroyed = False, downloadedBytes = 0\<rparr>"
  by (simp add: dl_on_response_def dl_init_def new_response_def res_status_def
      set_headers_ok with_dl_res_def)

lemma dl_run_data:
  assumes "200 \<le> sc" and "sc \<le> 999" and "sc \<noteq> 204" and "sc \<noteq> 304"
  shows "dl_run (map Data chunks @ es)
     \<lparr>dl_res = \<lparr>statusCode = sc, res_headers = h, headersSent = b, payload = p,
                written = w, ended = False, revalidates = c\<rparr>,
      dl_destroyed = d, downloadedBytes = n\<rparr>
   = dl_run es
     \<lparr>dl_res = \<lparr>statusCode = sc, res_headers = h, headersSent = (b \<or> chunks \<noteq> []),
                payload = p, written = w @ chunks, ended = False, revalidates = c\<rparr>,
      dl_destroyed = d, downloadedBytes = n + length (concat chunks)\<rparr>"
proof (induction chunks arbitrary: b w n)
  case Nil
  then show ?case by simp
next
  case (Cons x xs)
  have "dl_run (map Data (x # xs) @ es)
     \<lparr>dl_res = \<lparr>statusCode = sc, res_headers = h, headersSent = b, payload = p,
                written = w, ended = False, revalidates = c\<rparr>,
      dl_destroyed = d, downloadedBytes = n\<rparr>
    = dl_run (map Data xs @ es)
     \<lparr>dl_res = \<lparr>statusCode = sc, res_headers = h, headersSent = True, payload = p,
                written = w @ [x], ended = False, revalidates = c\<rparr>,
      dl_destroyed = d, downloadedBytes = n + length x\<rparr>"
    using assms
    by (simp add: dl_on_data_def res_write_def with_dl_res_def valid_status_def
        no_body_status_def)
  then show ?case by (simp add: Cons.IH add.assoc)
qed

text \<open>
  C3, as the code has it. For every upstream status from 200 to 999 other than 204
  and 304, every upstream header list and every list of body chunks. On the
  upstream response the handler sets the status and the headers on the caller's
  response: the upstream's values of \<^verbatim>\<open>content-type\<close>, \<^verbatim>\<open>content-length\<close>,
  \<^verbatim>\<open>content-disposition\<close>, \<^verbatim>\<open>accept-ranges\<close>, \<^verbatim>\<open>etag\<close>, \<^verbatim>\<open>last-modified\<close> and
  \<^verbatim>\<open>cache-control\<close> that are present and not empty, the three CORS headers, and no
  other name. Nothing has gone to the caller then: the head goes out with the
  first chunk written, and with the end of the stream when there is no chunk. Each
  chunk is written when it arrives, one write per chunk and in order, and the state
  keeps a byte count and no body. After the end event the response is ended and
  the bytes the caller has observed are the concatenation of the upstream chunks:
  the same bytes, in the same order and number, however the body was cut.
\<close>

theorem download_streams_body_unchanged:
  assumes "200 \<le> sc" and "sc \<le> 999" and "sc \<noteq> 204" and "sc \<noteq> 304"
  shows
  "\<exists>st. dl_run (Response sc hs # map Data chunks)
          (dl_init (new_response\<lparr>revalidates := c\<rparr> :: 'j response)) = Inr st
      \<and> statusCode (dl_res st) = sc
      \<and> (\<forall>n v. n \<in> set [''content-type'', ''content-length'', ''content-disposition'',
                    ''accept-ranges'', ''etag'', ''last-modified'', ''cache-control'']
               \<and> map_of hs n = Some v \<and> v \<noteq> []
               \<longrightarrow> map_of (res_headers (dl_res st)) n = Some v)
      \<and> (\<forall>n. n \<in> set [''content-type'', ''content-length'', ''content-disposition'',
                    ''accept-ranges'', ''etag'', ''last-modified'', ''cache-control'']
               \<and> (map_of hs n = None \<or> map_of hs n = Some [])
               \<longrightarrow> map_of (res_headers (dl_res st)) n = None)
      \<and> map_of (res_headers (dl_res st)) ''Access-Control-Allow-Origin'' = Some ''*''
      \<and> map_of (res_headers (dl_res st)) ''Access-Control-Allow-Methods''
           = Some ''GET, POST, PUT, DELETE, PATCH, OPTIONS''
      \<and> map_of (res_headers (dl_res st)) ''Access-Control-Allow-Headers''
           = Some ''Content-Type, Authorization, X-Requested-With, X-Custom-Header, Range''
      \<and> (\<forall>n. n \<notin> set [''content-type'', ''content-length'', ''content-disposition'',
                    ''accept-ranges'', ''etag'', ''last-modified'', ''cache-control'',
                    ''Access-Control-Allow-Origin'', ''Access-Control-Allow-Methods'',
                    ''Access-Control-Allow-Headers'']
               \<longrightarrow> map_of (res_headers (dl_res st)) n = None)
      \<and> written (dl_res st) = chunks
      \<and> headersSent (dl_res st) = (chunks \<noteq> [])
      \<and> \<not> ended (dl_res st)
      \<and> payload (dl_res st) = None
      \<and> downloadedBytes st = length (concat chunks)
      \<and> (\<exists>st'. dl_run (Response sc hs # map Data chunks @ [End])
                  (dl_init (new_response\<lparr>revalidates := c\<rparr> :: 'j response)) = Inr st'
            \<and> statusCode (dl_res st') = sc
            \<and> res_headers (dl_res st') = res_headers (dl_res st)
            \<and> written (dl_res st') = chunks
            \<and> concat (written (dl_res st')) = concat chunks
            \<and> length (concat (written (dl_res st'))) = length (concat chunks)
            \<and> headersSent (dl_res st')
            \<and> ended (dl_res st')
            \<and> payload (dl_res st') = None)"
proof -
  define H where "H = copy_headers download_headersToCopy hs
              @ cors_headers
                  ''Content-Type, Authorization, X-Requested-With, X-Custom-Header, Range''"
  let ?st = "\<lparr>dl_res = \<lparr>statusCode = sc, res_headers = H, headersSent = (chunks \<noteq> []),
                payload = None :: 'j payload option, written = chunks, ended = False,
                revalidates = c\<rparr>,
      dl_destroyed = False, downloadedBytes = length (concat chunks)\<rparr>"
  let ?st' = "\<lparr>dl_res = \<lparr>statusCode = sc, res_headers = H, headersSent = True,
                payload = None :: 'j payload option, written = chunks, ended = True,
                revalidates = c\<rparr>,
      dl_destroyed = False, downloadedBytes = length (concat chunks)\<rparr>"
  have r1: "dl_run (Response sc hs # map Data chunks)
      (dl_init (new_response\<lparr>revalidates := c\<rparr> :: 'j response)) = Inr ?st"
    using dl_run_data [OF assms, of chunks "[]" H False None "[]" c False 0]
    by (simp add: dl_response_fresh H_def)
  have r2: "dl_run (Response sc hs # map Data chunks @ [End])
      (dl_init (new_response\<lparr>revalidates := c\<rparr> :: 'j response)) = Inr ?st'"
    using dl_run_data [OF assms, of chunks "[End]" H False None "[]" c False 0] assms
    by (simp add: dl_response_fresh H_def dl_on_end_def res_end_def with_dl_res_def
        valid_status_def)
  have m: "map_of H n =
      (case (if n \<in> set download_headersToCopy
             then (case map_of hs n of None \<Rightarrow> None | Some v \<Rightarrow> if v = [] then None else Some v)
             else None) of
         Some v \<Rightarrow> Some v
       | None \<Rightarrow> map_of (cors_headers
           ''Content-Type, Authorization, X-Requested-With, X-Custom-Header, Range'') n)" for n
    by (simp add: H_def map_of_append map_add_def map_of_copy_headers split: option.splits)
  have pins: "(\<forall>n v. n \<in> set [''content-type'', ''content-length'', ''content-disposition'',
                    ''accept-ranges'', ''etag'', ''last-modified'', ''cache-control'']
               \<and> map_of hs n = Some v \<and> v \<noteq> [] \<longrightarrow> map_of H n = Some v)
      \<and> (\<forall>n. n \<in> set [''content-type'', ''content-length'', ''content-disposition'',
                    ''accept-ranges'', ''etag'', ''last-modified'', ''cache-control'']
               \<and> (map_of hs n = None \<or> map_of hs n = Some [])
               \<longrightarrow> map_of H n = None)
      \<and> map_of H ''Access-Control-Allow-Origin'' = Some ''*''
      \<and> map_of H ''Access-Control-Allow-Methods'' = Some ''GET, POST, PUT, DELETE, PATCH, OPTIONS''
      \<and> map_of H ''Access-Control-Allow-Headers''
           = Some ''Content-Type, Authorization, X-Requested-With, X-Custom-Header, Range''
      \<and> (\<forall>n. n \<notin> set [''content-type'', ''content-length'', ''content-disposition'',
                    ''accept-ranges'', ''etag'', ''last-modified'', ''cache-control'',
                    ''Access-Control-Allow-Origin'', ''Access-Control-Allow-Methods'',
                    ''Access-Control-Allow-Headers'']
               \<longrightarrow> map_of H n = None)"
    unfolding m by (auto simp: download_headersToCopy_def cors_headers_def)
  show ?thesis unfolding r1 r2 using pins by simp
qed

theorem download_streams_body_unchanged_witness:
  "map_sum id
     (\<lambda>st. (statusCode (dl_res st), map_of (res_headers (dl_res st)) ''content-length'',
            written (dl_res st), concat (written (dl_res st)), ended (dl_res st)))
     (dl_run (Response 200 [(''content-length'', ''4'')] # map Data [''ab'', ''c'', ''d''] @ [End])
        (dl_init (new_response\<lparr>revalidates := (\<lambda>hs p. False)\<rparr> :: unit response)))
   = Inr (200, Some ''4'', [''ab'', ''c'', ''d''], ''abcd'', True)"
proof -
  have "(200::nat) \<le> 200" "(200::nat) \<le> 999" "(200::nat) \<noteq> 204" "(200::nat) \<noteq> 304"
    by simp_all
  note T = download_streams_body_unchanged
    [where 'j = unit, OF this, of "[(''content-length'', ''4'')]" "[''ab'', ''c'', ''d'']"
      "\<lambda>hs p. False"]
  from T show ?thesis
  proof (elim exE conjE)
    fix st st'
    assume h: "\<forall>n v. n \<in> set [''content-type'', ''content-length'', ''content-disposition'',
                    ''accept-ranges'', ''etag'', ''last-modified'', ''cache-control'']
               \<and> map_of [(''content-length'', ''4'')] n = Some v \<and> v \<noteq> []
               \<longrightarrow> map_of (res_headers (dl_res st)) n = Some v"
      and r: "dl_run (Response 200 [(''content-length'', ''4'')] # map Data [''ab'', ''c'', ''d''] @ [End])
        (dl_init (new_response\<lparr>revalidates := (\<lambda>hs p. False)\<rparr> :: unit response)) = Inr st'"
      and p: "statusCode (dl_res st') = 200" "res_headers (dl_res st') = res_headers (dl_res st)"
        "written (dl_res st') = [''ab'', ''c'', ''d'']" "ended (dl_res st')"
    from h have "map_of (res_headers (dl_res st)) ''content-length'' = Some ''4''" by simp
    with r p show ?thesis by simp
  qed
qed

text \<open>
  A run on which nothing is emitted before the body is complete: the upstream
  declares a body of no bytes, its response has arrived, and no head has gone to
  the caller; it goes with the end of the stream.
\<close>

theorem head_waits_for_first_write:
  "dl_run [Response 200 [(''content-length'', ''0'')]] (dl_init (new_response :: unit response))
   = Inr \<lparr>dl_res = \<lparr>statusCode = 200,
              res_headers = [(''content-length'', ''0''),
                (''Access-Control-Allow-Origin'', ''*''),
                (''Access-Control-Allow-Methods'', ''GET, POST, PUT, DELETE, PATCH, OPTIONS''),
                (''Access-Control-Allow-Headers'',
                 ''Content-Type, Authorization, X-Requested-With, X-Custom-Header, Range'')],
              headersSent = False, payload = None, written = [], ended = False,
              revalidates = (\<lambda>hs p. False)\<rparr>,
          dl_destroyed = False, downloadedBytes = 0\<rparr>
   \<and> map_sum id (\<lambda>st. headersSent (dl_res st))
       (dl_run [Response 200 [(''content-length'', ''0'')], End]
          (dl_init (new_response :: unit response))) = Inr True"
  by (simp add: dl_init_def new_response_def dl_on_response_def dl_on_end_def
      res_status_def res_setHeader_def res_end_def with_dl_res_def valid_status_def
      copy_headers_def download_headersToCopy_def cors_headers_def List.map_filter_def)




section \<open>Outbound headers\<close>

text \<open>
  C10, as the code has it. The names of the forwarder's outbound headers are
  \<^verbatim>\<open>Content-Type\<close>, \<^verbatim>\<open>User-Agent\<close>, \<^verbatim>\<open>Accept\<close>, \<^verbatim>\<open>Authorization\<close> and
  \<^verbatim>\<open>X-Requested-With\<close>, then \<^verbatim>\<open>X-Custom-Header\<close> only when the inbound request
  has a non-empty one, then the computed \<^verbatim>\<open>Content-Length\<close> of a body.
  \<^verbatim>\<open>Authorization\<close> and \<^verbatim>\<open>X-Requested-With\<close> carry the inbound value, or the empty
  string when the inbound request lacks them. The downloader's are \<^verbatim>\<open>User-Agent\<close>,
  \<^verbatim>\<open>Accept\<close>, \<^verbatim>\<open>Authorization\<close> and \<^verbatim>\<open>Range\<close>, the last two with the same
  default, and no \<^verbatim>\<open>X-Requested-With\<close>.
\<close>

theorem outbound_header_defaults:
  fixes req :: "'j request"
  shows
  "map fst (headers (proxy_options stringify u req)) =
      [''Content-Type'', ''User-Agent'', ''Accept'', ''Authorization'', ''X-Requested-With'']
      @ (if truthy (map_of (req_headers req) ''x-custom-header'') then [''X-Custom-Header''] else [])
      @ (if body req \<noteq> None \<and> has_body_method (req_method req) then [''Content-Length''] else [])
   \<and> map_of (headers (proxy_options stringify u req)) ''Authorization''
       = Some (HStr (or_default (map_of (req_headers req) ''authorization'') []))
   \<and> map_of (headers (proxy_options stringify u req)) ''X-Requested-With''
       = Some (HStr (or_default (map_of (req_headers req) ''x-requested-with'') []))
   \<and> (map_of (req_headers req) ''authorization'' = None \<longrightarrow>
        map_of (headers (proxy_options stringify u req)) ''Authorization'' = Some (HStr []))
   \<and> (map_of (req_headers req) ''x-requested-with'' = None \<longrightarrow>
        map_of (headers (proxy_options stringify u req)) ''X-Requested-With'' = Some (HStr []))
   \<and> (map_of (req_headers req) ''x-custom-header'' = None \<longrightarrow>
        map_of (headers (proxy_options stringify u req)) ''X-Custom-Header'' = None)
   \<and> map fst (headers (download_options u req))
       = [''User-Agent'', ''Accept'', ''Authorization'', ''Range'']
   \<and> map_of (headers (download_options u req)) ''Authorization''
       = Some (HStr (or_default (map_of (req_headers req) ''authorization'') []))
   \<and> map_of (headers (download_options u req)) ''Range''
       = Some (HStr (or_default (map_of (req_headers req) ''range'') []))
   \<and> (map_of (req_headers req) ''range'' = None \<longrightarrow>
        map_of (headers (download_options u req)) ''Range'' = Some (HStr []))
   \<and> map_of (headers (download_options u req)) ''X-Requested-With'' = None"
proof -
  have p: "headers (proxy_options stringify u req) =
      proxy_headers (req_headers req)
        @ (if body req \<noteq> None \<and> has_body_method (req_method req)
           then [(''Content-Length'', HNum (length (stringify (the (body req)))))] else [])"
    by (auto simp: proxy_options_def split: option.splits)
  have d: "headers (download_options u req) = download_headers (req_headers req)"
    by (simp add: download_options_def)
  show ?thesis
    unfolding p d
    by (cases "map_of (req_headers req) ''x-custom-header''")
       (simp_all add: proxy_headers_def download_headers_def)
qed

theorem outbound_header_defaults_witness:
  "headers (proxy_options (\<lambda>x::unit. ''{}'')
      \<lparr>protocol = ''https:'', hostname = ''x.com'', port = [], pathname = ''/'', search = []\<rparr>
      \<lparr>req_method = ''GET'', query = [(''url'', QStr ''https://x.com'')],
       req_headers = [], body = None\<rparr>)
    = [(''Content-Type'', HStr ''application/json''), (''User-Agent'', HStr ''NativeProxy/1.0.0''),
       (''Accept'', HStr ''application/json''), (''Authorization'', HStr []),
       (''X-Requested-With'', HStr [])]
   \<and> headers (download_options
      \<lparr>protocol = ''https:'', hostname = ''x.com'', port = [], pathname = ''/'', search = []\<rparr>
      \<lparr>req_method = ''GET'', query = [(''url'', QStr ''https://x.com'')],
       req_headers = [], body = None :: unit option\<rparr>)
    = [(''User-Agent'', HStr ''NativeProxy/1.0.0''), (''Accept'', HStr ''*/*''),
       (''Authorization'', HStr []), (''Range'', HStr [])]"
  using outbound_header_defaults [of "\<lambda>x::unit. ''{}''"
      "\<lparr>protocol = ''https:'', hostname = ''x.com'', port = [], pathname = ''/'', search = []\<rparr>"
      "\<lparr>req_method = ''GET'', query = [(''url'', QStr ''https://x.com'')],
       req_headers = [], body = None\<rparr>"]
  by (simp add: proxy_options_def download_options_def proxy_headers_def download_headers_def)

text \<open>
  A download whose inbound request carries \<^verbatim>\<open>X-Requested-With\<close>: the outbound
  headers do not have the name.
\<close>

theorem download_omits_x_requested_with:
  "map_of (headers (download_options
      \<lparr>protocol = ''https:'', hostname = ''x.com'', port = [], pathname = ''/'', search = []\<rparr>
      \<lparr>req_method = ''GET'', query = [(''url'', QStr ''https://x.com'')],
       req_headers = [(''x-requested-with'', ''XMLHttpRequest'')], body = None :: unit option\<rparr>))
     ''X-Requested-With'' = None"
  by (simp add: download_options_def download_headers_def)

section \<open>The relay\<close>

text \<open>
  C4. In an open session, a close of the client with code 1000 and reason
  \<^verbatim>\<open>bye\<close> closes the target with no code and no reason, and an error of the
  client closes the target with no code either; in the other direction the target's
  code and reason are passed on, and the target's error closes the client with 1011,
  after the listener set before the session opened has destroyed the raw socket.
\<close>

theorem client_close_loses_code:
  "map_sum id (\<lambda>s. close_calls (targetWs s))
      (relay_step (ClientClose 1000 ''bye'') (relay_open rdy)) = Inr [(None, None)]
   \<and> map_sum id (\<lambda>s. close_calls (targetWs s))
      (relay_step ClientError (relay_open rdy)) = Inr [(None, None)]
   \<and> map_sum id (\<lambda>s. close_calls (ws s))
      (relay_step (TargetClose 1000 ''bye'') (relay_open rdy)) = Inr [(Some 1000, Some ''bye'')]
   \<and> map_sum id (\<lambda>s. close_calls (ws s))
      (relay_step TargetError (relay_open rdy)) = Inr [(Some 1011, Some ''Target WebSocket error'')]
   \<and> map_sum id socket_destroyed (relay_step TargetError (relay_open rdy)) = Inr True"
  by (simp add: relay_open_def ws_close_def ws_close_with_def isValidStatusCode_def)

text \<open>
  A target that closes without a code reports 1005, which may not be sent: the
  call that would pass it to the client throws.
\<close>

lemma target_close_without_code:
  "relay_step (TargetClose 1005 []) st = Inl WS_INVALID_CLOSE_CODE"
  by (simp add: ws_close_with_def isValidStatusCode_def)

text \<open>
  C9. The upgrade handler tests only that the target header is not empty: any
  other target goes to the constructor of the WebSocket client, and is refused
  only when the constructor throws. With a constructor that accepts it, an http
  target gets its outbound client. The page route \<^verbatim>\<open>GET /ws-proxy\<close> refuses the
  same target with 400, whatever the parser says.
\<close>

theorem upgrade_without_scheme_check:
  "upgrade ctor_throws (Some t) =
     (if t = [] then Refused ''HTTP/1.1 400 Bad Request''
      else if ctor_throws t then Refused ''HTTP/1.1 500 Internal Server Error''
      else Connecting t)
   \<and> upgrade (\<lambda>a. False) (Some ''http://example.com'') = Connecting ''http://example.com''
   \<and> ws_proxy_get parse [(''url'', QStr ''http://example.com'')]
       = Rejected 400 ''Invalid WebSocket URL format''"
  by (simp add: upgrade_def ws_proxy_get_def starts_ws_def)

end
